theory Spec2Isabelle
  imports Complex_Main "HOL-Library.Multiset"
begin

section \<open>Data model\<close>

text \<open>
  A JavaScript string is a sequence of UTF-16 code units. Literals of the source are
  written \<open>js ''...''\<close>; a character outside ASCII is given by its code unit.
\<close>

type_synonym js_string = "nat list"

abbreviation js :: "string \<Rightarrow> js_string" where
  "js s \<equiv> map of_char s"

text \<open>Timestamps are epoch milliseconds, as \<open>Date.getTime()\<close> returns them.\<close>

datatype status_pizza = EmProducao | Pronta | Avaliada

datatype resultado_pizza = Aprovada | Reprovada

record pizza =
  p_id :: js_string
  equipe_id :: js_string
  rodada_id :: js_string
  sabor_id :: "js_string option"
  p_status :: status_pizza
  resultado :: "resultado_pizza option"
  justificativa_reprovacao :: "js_string option"
  avaliado_por :: "js_string option"
  created_at :: int
  updated_at :: int

datatype status_rodada = Aguardando | Ativa | Pausada | Finalizada

record rodada =
  r_id :: js_string
  numero :: int
  r_status :: status_rodada
  tempo_limite :: int
  iniciou_em :: "int option"
  finalizou_em :: "int option"

record equipe =
  e_id :: js_string
  nome :: js_string

text \<open>
  The shared store. A query of the source is a filter over a table; a conditional
  update rewrites, in one step, every row its predicate matches and leaves the others.
\<close>

record banco =
  pizzas_tbl :: "pizza list"
  equipes_tbl :: "equipe list"
  rodadas_tbl :: "rodada list"

definition db_update :: "('a \<Rightarrow> bool) \<Rightarrow> ('a \<Rightarrow> 'a) \<Rightarrow> 'a list \<Rightarrow> 'a list" where
  "db_update P f tbl = map (\<lambda>x. if P x then f x else x) tbl"

definition db_select :: "('a \<Rightarrow> bool) \<Rightarrow> 'a list \<Rightarrow> 'a list" where
  "db_select P tbl = filter P tbl"

section \<open>Auto-timeout rejection (useAvaliacaoTimeout)\<close>

definition TEMPO_ADICIONAL_SEGUNDOS :: int where
  "TEMPO_ADICIONAL_SEGUNDOS = 60"

text \<open>
  \<open>Math.ceil(ms / 1000)\<close> on a whole number of milliseconds. (For magnitudes below
  2^52, which covers every timestamp of the clock, the double-precision quotient has the
  same ceiling as the exact one.)
\<close>

definition ceil_div_1000 :: "int \<Rightarrow> int" where
  "ceil_div_1000 ms = - ((- ms) div 1000)"

text \<open>
  \<open>calcularTempoRestante\<close> of useAvaliacaoTimeout: \<open>None\<close> is the source's
  \<open>null\<close>; \<open>agora\<close> is the value of \<open>new Date().getTime()\<close>.
\<close>

definition calcularTempoRestante :: "rodada option \<Rightarrow> int \<Rightarrow> int option" where
  "calcularTempoRestante rodadaAtual agora =
     (case rodadaAtual of
        None \<Rightarrow> None
      | Some r \<Rightarrow>
          if r_status r \<noteq> Finalizada then None
          else (case finalizou_em r of
                  None \<Rightarrow> None
                | Some fimRodada \<Rightarrow>
                    let fimTempoAdicional = fimRodada + TEMPO_ADICIONAL_SEGUNDOS * 1000;
                        tempoRestanteMs = fimTempoAdicional - agora
                    in if tempoRestanteMs \<le> 0 then Some 0
                       else Some (ceil_div_1000 tempoRestanteMs)))"

text \<open>
  The fixed text of the automatic rejection. Its accented letters (c with cedilla and
  a with tilde in "avaliacao" and "reprovacao", a with acute in "automatica") are the
  code units 0xE7, 0xE3 and 0xE1.
\<close>

definition JUSTIFICATIVA_TIMEOUT :: js_string where
  "JUSTIFICATIVA_TIMEOUT =
     js ''Tempo de avalia'' @ [0xE7, 0xE3] @ js ''o esgotado - reprova'' @ [0xE7, 0xE3]
       @ js ''o autom'' @ [0xE1] @ js ''tica''"

definition MARCA_TIMEOUT :: js_string where
  "MARCA_TIMEOUT = js ''Sistema - Timeout''"

definition MARCA_AVALIADOR :: js_string where
  "MARCA_AVALIADOR = js ''Avaliador''"

text \<open>The predicate of the select and of the bulk update of the rejector.\<close>

definition pendente_da_rodada :: "js_string \<Rightarrow> pizza \<Rightarrow> bool" where
  "pendente_da_rodada rodadaId p \<longleftrightarrow>
     rodada_id p = rodadaId \<and> p_status p = Pronta \<and> resultado p = None"

text \<open>The columns the bulk update writes.\<close>

definition reprovacao_automatica :: "int \<Rightarrow> pizza \<Rightarrow> pizza" where
  "reprovacao_automatica agora p =
     p\<lparr>p_status := Avaliada,
       resultado := Some Reprovada,
       justificativa_reprovacao := Some JUSTIFICATIVA_TIMEOUT,
       avaliado_por := Some MARCA_TIMEOUT,
       updated_at := agora\<rparr>"

text \<open>What the store answers to the two requests of one invocation.\<close>

record respostas =
  selectError :: bool
  updateError :: bool

definition semErro :: respostas where
  "semErro = \<lparr>selectError = False, updateError = False\<rparr>"

text \<open>
  \<open>reprovarPizzasNaoAvaliadas\<close>: the table after the call, and the ids the call
  reports as rejected (the selected \<open>pizzasPendentes\<close>, announced by the toast and the
  event once the update has gone through; nothing on an early return).
\<close>

definition reprovarPizzasNaoAvaliadas ::
    "respostas \<Rightarrow> int \<Rightarrow> js_string \<Rightarrow> pizza list \<Rightarrow> pizza list \<times> js_string list" where
  "reprovarPizzasNaoAvaliadas resp agora rodadaId tbl =
     (if selectError resp then (tbl, [])
      else let pizzasPendentes = db_select (pendente_da_rodada rodadaId) tbl in
        if pizzasPendentes = [] then (tbl, [])
        else if updateError resp then (tbl, [])
        else (db_update (pendente_da_rodada rodadaId) (reprovacao_automatica agora) tbl,
              map p_id pizzasPendentes))"

text \<open>
  The state of one mounted \<open>useAvaliacaoTimeout\<close>. \<open>intervalRef\<close> holds the round
  the armed interval's callback has captured, \<open>None\<close> when no interval is armed.
\<close>

record timeout_hook =
  tempoRestante :: "int option"
  estaNoTempoAdicional :: bool
  intervalRef :: "rodada option"
  tempoAdicionalProcessadoRef :: "js_string set"

text \<open>The branch both the effect and the interval take when the time is up.\<close>

definition esgotar ::
    "respostas \<Rightarrow> int \<Rightarrow> js_string \<Rightarrow> timeout_hook \<Rightarrow> pizza list \<Rightarrow> timeout_hook \<times> pizza list" where
  "esgotar resp agora rodadaId h tbl =
     (h\<lparr>tempoRestante := Some 0,
        estaNoTempoAdicional := False,
        intervalRef := None,
        tempoAdicionalProcessadoRef := insert rodadaId (tempoAdicionalProcessadoRef h)\<rparr>,
      fst (reprovarPizzasNaoAvaliadas resp agora rodadaId tbl))"

text \<open>
  The main effect of the hook, run when the round's id, status or end time changes.
  The rejection is started without being awaited; here its writes land at once.
\<close>

definition efeito_timeout ::
    "respostas \<Rightarrow> int \<Rightarrow> rodada option \<Rightarrow> timeout_hook \<Rightarrow> pizza list \<Rightarrow> timeout_hook \<times> pizza list" where
  "efeito_timeout resp agora rodadaAtual h0 tbl =
     (let h = h0\<lparr>intervalRef := None\<rparr> in
      case rodadaAtual of
        None \<Rightarrow> (h\<lparr>tempoRestante := None, estaNoTempoAdicional := False\<rparr>, tbl)
      | Some r \<Rightarrow>
          if r_status r \<noteq> Finalizada
          then (h\<lparr>tempoRestante := None, estaNoTempoAdicional := False\<rparr>, tbl)
          else if r_id r \<in> tempoAdicionalProcessadoRef h
          then (h\<lparr>tempoRestante := Some 0, estaNoTempoAdicional := False\<rparr>, tbl)
          else (case calcularTempoRestante rodadaAtual agora of
                  None \<Rightarrow> (h\<lparr>estaNoTempoAdicional := True\<rparr>, tbl)
                | Some tempoInicial \<Rightarrow>
                    if tempoInicial \<le> 0
                    then esgotar resp agora (r_id r) (h\<lparr>estaNoTempoAdicional := True\<rparr>) tbl
                    else (h\<lparr>estaNoTempoAdicional := True,
                            tempoRestante := Some tempoInicial,
                            intervalRef := Some r\<rparr>, tbl)))"

text \<open>One firing of the interval armed by the effect; nothing fires when none is armed.\<close>

definition tick_timeout ::
    "respostas \<Rightarrow> int \<Rightarrow> timeout_hook \<Rightarrow> pizza list \<Rightarrow> timeout_hook \<times> pizza list" where
  "tick_timeout resp agora h tbl =
     (case intervalRef h of
        None \<Rightarrow> (h, tbl)
      | Some r \<Rightarrow>
          (case calcularTempoRestante (Some r) agora of
             None \<Rightarrow> esgotar resp agora (r_id r) h tbl
           | Some novoTempo \<Rightarrow>
               if novoTempo \<le> 0 then esgotar resp agora (r_id r) h tbl
               else (h\<lparr>tempoRestante := Some novoTempo\<rparr>, tbl)))"



section \<open>Manual evaluation (usePizzasParaAvaliacao)\<close>

datatype erro = ErroBanco

text \<open>
  The columns \<open>avaliarPizza\<close> writes. An omitted \<open>justificativa\<close> is
  \<open>undefined\<close>, which the request's JSON body drops: on a rejection without a reason
  the column keeps what it held.
\<close>

definition avaliacao_manual :: "int \<Rightarrow> resultado_pizza \<Rightarrow> js_string option \<Rightarrow> pizza \<Rightarrow> pizza" where
  "avaliacao_manual agora res justificativa p =
     p\<lparr>p_status := Avaliada,
       resultado := Some res,
       justificativa_reprovacao :=
         (if res = Reprovada
          then (case justificativa of None \<Rightarrow> justificativa_reprovacao p | Some j \<Rightarrow> Some j)
          else None),
       avaliado_por := Some MARCA_AVALIADOR,
       updated_at := agora\<rparr>"

text \<open>
  \<open>avaliarPizza\<close>: the update is keyed by the id alone. \<open>Inl\<close> is the rethrown
  error of the store; otherwise the table after the write and the hook's local list
  without the evaluated item.
\<close>

definition avaliarPizza ::
    "bool \<Rightarrow> int \<Rightarrow> js_string \<Rightarrow> resultado_pizza \<Rightarrow> js_string option \<Rightarrow>
     pizza list \<Rightarrow> pizza list \<Rightarrow> erro + (pizza list \<times> pizza list)" where
  "avaliarPizza falha agora pizzaId res justificativa tbl pizzas =
     (if falha then Inl ErroBanco
      else Inr (db_update (\<lambda>p. p_id p = pizzaId) (avaliacao_manual agora res justificativa) tbl,
                filter (\<lambda>p. p_id p \<noteq> pizzaId) pizzas))"

text \<open>
  \<open>fetchPizzasParaAvaliacao\<close> of the evaluator's hook. The select embeds the team
  with \<open>equipes!inner\<close>, which keeps only rows whose team row exists; the embedded
  columns themselves are left out of the result here. The order among rows of equal
  \<open>created_at\<close> is the store's choice; \<open>sort_key\<close> is one such choice.
\<close>

definition tem_equipe :: "banco \<Rightarrow> pizza \<Rightarrow> bool" where
  "tem_equipe b p \<longleftrightarrow> equipe_id p \<in> e_id ` set (equipes_tbl b)"

definition tem_rodada :: "banco \<Rightarrow> pizza \<Rightarrow> bool" where
  "tem_rodada b p \<longleftrightarrow> rodada_id p \<in> r_id ` set (rodadas_tbl b)"

definition fetchPizzasParaAvaliacao :: "bool \<Rightarrow> banco \<Rightarrow> erro + pizza list" where
  "fetchPizzasParaAvaliacao falha b =
     (if falha then Inl ErroBanco
      else Inr (sort_key created_at
                  (filter (\<lambda>p. tem_equipe b p \<and> p_status p = Pronta \<and> resultado p = None)
                     (pizzas_tbl b))))"

text \<open>
  A change of the pizzas table as the channel's handler receives it, with the row it
  carries: \<open>payload.new\<close> of an insert or an update, \<open>payload.old\<close> of a delete.
\<close>

datatype evento_pizzas = INSERT pizza | UPDATE pizza | DELETE pizza

text \<open>
  The handler's own select of one pizza by id, with the team embedded by
  \<open>equipes!inner\<close> and ended by \<open>single()\<close>: a row only when exactly one matches.
\<close>

definition buscar_pizza_completa :: "banco \<Rightarrow> js_string \<Rightarrow> pizza option" where
  "buscar_pizza_completa b pizzaId =
     (case filter (\<lambda>p. p_id p = pizzaId \<and> tem_equipe b p) (pizzas_tbl b) of
        [p] \<Rightarrow> Some p
      | _ \<Rightarrow> None)"

text \<open>
  The \<open>postgres_changes\<close> handler of the evaluator's hook: the hook's list after one
  event, \<open>b\<close> being the store the handler's select reads. A ready item without a
  result that the list does not hold yet is put in front of it.
\<close>

definition handler_pizzas :: "banco \<Rightarrow> evento_pizzas \<Rightarrow> pizza list \<Rightarrow> pizza list" where
  "handler_pizzas b ev prev =
     (case ev of
        INSERT novaPizza \<Rightarrow>
          if p_status novaPizza = Pronta \<and> resultado novaPizza = None
          then (case buscar_pizza_completa b (p_id novaPizza) of
                  None \<Rightarrow> prev
                | Some pizzaCompleta \<Rightarrow>
                    if p_id pizzaCompleta \<in> p_id ` set prev then prev
                    else pizzaCompleta # prev)
          else prev
      | UPDATE pizzaAtualizada \<Rightarrow>
          if p_status pizzaAtualizada = Pronta \<and> resultado pizzaAtualizada = None
          then (case buscar_pizza_completa b (p_id pizzaAtualizada) of
                  None \<Rightarrow> prev
                | Some pizzaCompleta \<Rightarrow>
                    if p_id pizzaAtualizada \<in> p_id ` set prev
                    then map (\<lambda>p. if p_id p = p_id pizzaAtualizada then pizzaCompleta else p) prev
                    else pizzaCompleta # prev)
          else if p_status pizzaAtualizada = Avaliada \<or> resultado pizzaAtualizada \<noteq> None
          then filter (\<lambda>p. p_id p \<noteq> p_id pizzaAtualizada) prev
          else prev
      | DELETE pizzaRemovida \<Rightarrow> filter (\<lambda>p. p_id p \<noteq> p_id pizzaRemovida) prev)"

text \<open>
  The same handler in the hook's other revision, which fetches the whole list again
  for a ready item instead of inserting it; a failed fetch leaves the list as it was.
\<close>

definition handler_pizzas_refetch :: "bool \<Rightarrow> banco \<Rightarrow> evento_pizzas \<Rightarrow> pizza list \<Rightarrow> pizza list" where
  "handler_pizzas_refetch falha b ev prev =
     (let refetch = (case fetchPizzasParaAvaliacao falha b of Inl err \<Rightarrow> prev | Inr dados \<Rightarrow> dados) in
      case ev of
        INSERT novaPizza \<Rightarrow>
          if p_status novaPizza = Pronta \<and> resultado novaPizza = None then refetch else prev
      | UPDATE pizzaAtualizada \<Rightarrow>
          if p_status pizzaAtualizada = Avaliada \<or> resultado pizzaAtualizada \<noteq> None
          then filter (\<lambda>p. p_id p \<noteq> p_id pizzaAtualizada) prev
          else if p_status pizzaAtualizada = Pronta \<and> resultado pizzaAtualizada = None
          then refetch
          else prev
      | DELETE pizzaRemovida \<Rightarrow> filter (\<lambda>p. p_id p \<noteq> p_id pizzaRemovida) prev)"

section \<open>The team-scoped evaluation list\<close>

text \<open>
  \<open>String.prototype.trim\<close> removes, at both ends, the code units of WhiteSpace and
  LineTerminator of the language.
\<close>

definition strWhiteSpaceChar :: "nat \<Rightarrow> bool" where
  "strWhiteSpaceChar c \<longleftrightarrow>
     c \<in> {0x09, 0x0A, 0x0B, 0x0C, 0x0D, 0x20, 0xA0, 0x1680, 0x2028, 0x2029, 0x202F,
          0x205F, 0x3000, 0xFEFF}
     \<or> (0x2000 \<le> c \<and> c \<le> 0x200A)"

definition trim :: "js_string \<Rightarrow> js_string" where
  "trim s = rev (dropWhile strWhiteSpaceChar (rev (dropWhile strWhiteSpaceChar s)))"

text \<open>The guard \<open>equipeId && equipeId.trim() !== ''\<close> on both the query and the channel.\<close>

definition filtra_por_equipe :: "js_string \<Rightarrow> bool" where
  "filtra_por_equipe equipeId \<longleftrightarrow> equipeId \<noteq> [] \<and> trim equipeId \<noteq> []"

definition fetchPizzasParaAvaliacao_equipe :: "bool \<Rightarrow> js_string \<Rightarrow> banco \<Rightarrow> erro + pizza list" where
  "fetchPizzasParaAvaliacao_equipe falha equipeId b =
     (if falha then Inl ErroBanco
      else Inr (sort_key created_at
                  (filter (\<lambda>p. tem_equipe b p \<and> tem_rodada b p \<and> p_status p = Pronta \<and>
                              resultado p = None \<and>
                              (if filtra_por_equipe equipeId then equipe_id p = equipeId else True))
                     (pizzas_tbl b))))"

record channel_config =
  cc_event :: js_string
  cc_schema :: js_string
  cc_table :: js_string
  cc_filter :: "js_string option"

definition channelConfig :: "js_string \<Rightarrow> channel_config" where
  "channelConfig equipeId =
     \<lparr>cc_event = js ''*'', cc_schema = js ''public'', cc_table = js ''pizzas'',
      cc_filter = (if filtra_por_equipe equipeId then Some (js ''equipe_id=eq.'' @ equipeId)
                   else None)\<rparr>"

section \<open>Round clock and extension\<close>

text \<open>
  \<open>updateTimer\<close> of the team screen: the value it hands to \<open>setTempoRestante\<close> and
  the boolean it returns, from the start of the round and its duration in milliseconds.
\<close>

definition updateTimer :: "int \<Rightarrow> int \<Rightarrow> int \<Rightarrow> int \<times> bool" where
  "updateTimer inicioRodada duracaoRodada agora =
     (let tempoDecorrido = agora - inicioRodada;
          resto = max 0 (duracaoRodada - tempoDecorrido)
      in (ceil_div_1000 resto, resto > 0))"

text \<open>The effect around it: the displayed value after its immediate first update.\<close>

definition timer_equipe :: "rodada option \<Rightarrow> int \<Rightarrow> int \<Rightarrow> int" where
  "timer_equipe rodadaAtual agora tempoRestante0 =
     (case rodadaAtual of
        None \<Rightarrow> tempoRestante0
      | Some r \<Rightarrow>
          if r_status r \<noteq> Ativa then tempoRestante0
          else (case iniciou_em r of
                  None \<Rightarrow> tempoRestante0
                | Some inicioRodada \<Rightarrow>
                    fst (updateTimer inicioRodada (tempo_limite r * 1000) agora)))"

text \<open>
  The contract of the clock reconciler in the specification's words, over the reals:
  the ceiling of (anchor + limit * 1000 - now) / 1000, floored at zero.
\<close>

definition spec_remaining :: "int \<Rightarrow> int \<Rightarrow> int \<Rightarrow> int" where
  "spec_remaining anchor limit now =
     max 0 \<lceil>(of_int (anchor + limit * 1000 - now) :: real) / 1000\<rceil>"

text \<open>
  \<open>adicionarMinutos\<close> of the control screen: the rounds table after the call. The new
  limit is computed from the screen's copy of the round; a failed write is caught and
  reported, and leaves the table as it was.
\<close>

definition adicionarMinutos :: "bool \<Rightarrow> int \<Rightarrow> rodada option \<Rightarrow> rodada list \<Rightarrow> rodada list" where
  "adicionarMinutos falha minutos rodadaAtual tbl =
     (case rodadaAtual of
        None \<Rightarrow> tbl
      | Some r \<Rightarrow>
          let novoTempoLimite = tempo_limite r + minutos * 60 in
          if falha then tbl
          else db_update (\<lambda>x. r_id x = r_id r) (\<lambda>x. x\<lparr>tempo_limite := novoTempoLimite\<rparr>) tbl)"

section \<open>Submission (FilaProducao)\<close>

text \<open>What the component sees at one render.\<close>

record fila_producao =
  rodadaAtual :: "rodada option"
  pizzas :: "pizza list"
  saborSelecionado :: js_string
  limitePizzasRodada :: int
  isActive :: bool
  timeRemaining :: int

datatype aviso =
  SelecioneSabor | TempoEsgotado | LimiteAtingido | TempoEsgotadoDuranteEnvio | ErroAoEnviar

datatype resultado_envio = SemRodada | Recusada aviso | Enviada

definition verificarLimitePizzas :: "fila_producao \<Rightarrow> bool" where
  "verificarLimitePizzas st \<longleftrightarrow>
     (let pizzasEnviadas = int (length (pizzas st)) in pizzasEnviadas \<ge> limitePizzasRodada st)"

definition podeEnviarPizza :: "fila_producao \<Rightarrow> bool" where
  "podeEnviarPizza st =
     (case rodadaAtual st of
        None \<Rightarrow> False
      | Some r \<Rightarrow>
          if r_status r \<noteq> Ativa then False
          else if \<not> isActive st \<or> timeRemaining st \<le> 0 then False
          else True)"

text \<open>
  Modelled from the spec: \<open>marcarPizzaPronta\<close> belongs to the hook \<open>usePizzas\<close>, which
  is not among the sources. The specification's submit "creates item in ready status":
  a new row of the team, the round and the flavour, ready and without a result.
  \<open>novoId\<close> is the id the store gives the row.
\<close>

definition marcarPizzaPronta ::
    "js_string \<Rightarrow> int \<Rightarrow> js_string \<Rightarrow> js_string \<Rightarrow> js_string \<Rightarrow> pizza list \<Rightarrow> pizza list" where
  "marcarPizzaPronta novoId agora equipeId rodadaId saborId tbl =
     tbl @ [\<lparr>p_id = novoId, equipe_id = equipeId, rodada_id = rodadaId,
              sabor_id = Some saborId, p_status = Pronta, resultado = None,
              justificativa_reprovacao = None, avaliado_por = None,
              created_at = agora, updated_at = agora\<rparr>]"

text \<open>
  Modelled from the spec: the list \<open>pizzas\<close> of \<open>usePizzas(equipeId, rodadaId)\<close>, a hook
  that is not among the sources: the items of the given team and round, whatever
  their status (the component itself renders ready, approved and rejected items from
  this list). An absent argument does not restrict the list.
\<close>

definition usePizzas :: "js_string option \<Rightarrow> js_string option \<Rightarrow> pizza list \<Rightarrow> pizza list" where
  "usePizzas equipeId rodadaId tbl =
     filter (\<lambda>p. (case equipeId of None \<Rightarrow> True | Some e \<Rightarrow> equipe_id p = e) \<and>
                 (case rodadaId of None \<Rightarrow> True | Some r \<Rightarrow> rodada_id p = r)) tbl"

text \<open>
  \<open>handleEnviarPizza\<close>: what the user is told, and the pizzas table afterwards.
  \<open>falha\<close> says that \<open>marcarPizzaPronta\<close> threw.
\<close>

definition handleEnviarPizza ::
    "bool \<Rightarrow> js_string \<Rightarrow> int \<Rightarrow> js_string \<Rightarrow> fila_producao \<Rightarrow> pizza list \<Rightarrow>
     resultado_envio \<times> pizza list" where
  "handleEnviarPizza falha novoId agora equipeId st tbl =
     (case rodadaAtual st of
        None \<Rightarrow> (SemRodada, tbl)
      | Some r \<Rightarrow>
          if saborSelecionado st = [] then (Recusada SelecioneSabor, tbl)
          else if \<not> podeEnviarPizza st then (Recusada TempoEsgotado, tbl)
          else if verificarLimitePizzas st then (Recusada LimiteAtingido, tbl)
          else if \<not> podeEnviarPizza st then (Recusada TempoEsgotadoDuranteEnvio, tbl)
          else if falha then (Recusada ErroAoEnviar, tbl)
          else (Enviada,
                marcarPizzaPronta novoId agora equipeId (r_id r) (saborSelecionado st) tbl))"

text \<open>
  A run of submissions by one team, each with the id and the clock of its insert and
  the flavour chosen; every insert goes through, and the component's list is refetched
  before each submission.
\<close>

fun enviar_varias ::
    "js_string \<Rightarrow> fila_producao \<Rightarrow> (js_string \<times> int \<times> js_string) list \<Rightarrow> pizza list \<Rightarrow>
     resultado_envio list \<times> pizza list" where
  "enviar_varias equipeId st [] tbl = ([], tbl)"
| "enviar_varias equipeId st ((novoId, agora, sabor) # resto) tbl =
     (let st1 = st\<lparr>pizzas := usePizzas (Some equipeId) (map_option r_id (rodadaAtual st)) tbl,
                   saborSelecionado := sabor\<rparr>;
          (res, tbl1) = handleEnviarPizza False novoId agora equipeId st1 tbl;
          (ress, tbl2) = enviar_varias equipeId st resto tbl1
      in (res # ress, tbl2))"

section \<open>Subscription lifecycle (usePizzasParaAvaliacao)\<close>

text \<open>
  The realtime client holds the channels created through it, each with the phase of
  its join: created, join requested, joined, or closed. A change of the pizzas table
  runs the handler of every channel the client holds that has joined.
\<close>

datatype fase_canal = Criado | Entrando | Inscrito | Fechado

type_synonym cliente_realtime = "(nat \<times> fase_canal) list"

datatype status_inscricao = SUBSCRIBED | CLOSED | CHANNEL_ERROR

definition removeChannel :: "nat \<Rightarrow> cliente_realtime \<Rightarrow> cliente_realtime" where
  "removeChannel ch cl = filter (\<lambda>(c, f). c \<noteq> ch) cl"

definition muda_fase :: "nat \<Rightarrow> fase_canal \<Rightarrow> cliente_realtime \<Rightarrow> cliente_realtime" where
  "muda_fase ch f' cl = map (\<lambda>(c, f). if c = ch then (c, f') else (c, f)) cl"

definition entregar :: "cliente_realtime \<Rightarrow> nat list" where
  "entregar cl = map fst (filter (\<lambda>(c, f). f = Inscrito) cl)"

text \<open>The refs of one mounted hook; \<open>temIntervalo\<close> says that its interval is live.\<close>

record avaliacao_hook =
  channelRef :: "nat option"
  isSubscribedRef :: bool
  temIntervalo :: bool

definition cleanupChannel :: "avaliacao_hook \<times> cliente_realtime \<Rightarrow> avaliacao_hook \<times> cliente_realtime" where
  "cleanupChannel s =
     (case s of (h, cl) \<Rightarrow>
        (case channelRef h of
           None \<Rightarrow> (h, cl)
         | Some ch \<Rightarrow>
             if isSubscribedRef h
             then (h\<lparr>channelRef := None, isSubscribedRef := False\<rparr>, removeChannel ch cl)
             else (h, cl)))"

text \<open>
  The subscription effect at mount: clean up, create the channel \<open>novo\<close> with its
  handler, keep it in \<open>channelRef\<close>, and request the join unless already subscribed.
\<close>

definition efeito_inscricao :: "nat \<Rightarrow> avaliacao_hook \<times> cliente_realtime \<Rightarrow> avaliacao_hook \<times> cliente_realtime" where
  "efeito_inscricao novo s =
     (case cleanupChannel s of (h1, cl1) \<Rightarrow>
        let cl2 = cl1 @ [(novo, Criado)];
            h2 = h1\<lparr>channelRef := Some novo\<rparr>
        in if \<not> isSubscribedRef h2 then (h2, muda_fase novo Entrando cl2) else (h2, cl2))"

text \<open>
  The answer to the join of channel \<open>ch\<close> reaches the client: a channel it still holds
  changes phase and runs the callback given to \<open>subscribe\<close>.
\<close>

definition receber_status ::
    "nat \<Rightarrow> status_inscricao \<Rightarrow> avaliacao_hook \<times> cliente_realtime \<Rightarrow> avaliacao_hook \<times> cliente_realtime" where
  "receber_status ch st s =
     (case s of (h, cl) \<Rightarrow>
        if ch \<notin> fst ` set cl then (h, cl)
        else (case st of
                SUBSCRIBED \<Rightarrow> (h\<lparr>isSubscribedRef := True\<rparr>, muda_fase ch Inscrito cl)
              | CLOSED \<Rightarrow> (h\<lparr>isSubscribedRef := False\<rparr>, muda_fase ch Fechado cl)
              | CHANNEL_ERROR \<Rightarrow> (h\<lparr>isSubscribedRef := False\<rparr>, muda_fase ch Fechado cl)))"

text \<open>
  Unmount: the cleanups of the effects in their order: the timer's (clear the
  interval), the subscription's (\<open>cleanupChannel\<close>), and the last effect's (clear the
  interval, \<open>cleanupChannel\<close>).
\<close>

definition desmontar :: "avaliacao_hook \<times> cliente_realtime \<Rightarrow> avaliacao_hook \<times> cliente_realtime" where
  "desmontar s =
     (case s of (h, cl) \<Rightarrow>
        (case cleanupChannel (h\<lparr>temIntervalo := False\<rparr>, cl) of (h1, cl1) \<Rightarrow>
           cleanupChannel (h1\<lparr>temIntervalo := False\<rparr>, cl1)))"

section \<open>Example data\<close>

definition pizza_ex :: "string \<Rightarrow> string \<Rightarrow> string \<Rightarrow> int \<Rightarrow> pizza" where
  "pizza_ex i e r t =
     \<lparr>p_id = js i, equipe_id = js e, rodada_id = js r, sabor_id = None, p_status = Pronta,
      resultado = None, justificativa_reprovacao = None, avaliado_por = None,
      created_at = t, updated_at = t\<rparr>"

definition pizza_aprovada_ex :: pizza where
  "pizza_aprovada_ex =
     (pizza_ex ''p3'' ''e1'' ''r1'' 30)
       \<lparr>p_status := Avaliada, resultado := Some Aprovada, avaliado_por := Some MARCA_AVALIADOR\<rparr>"

definition tbl_ex :: "pizza list" where
  "tbl_ex = [pizza_ex ''p2'' ''e2'' ''r1'' 20, pizza_ex ''p1'' ''e1'' ''r1'' 10, pizza_aprovada_ex]"

definition rodada_ex :: "status_rodada \<Rightarrow> rodada" where
  "rodada_ex st =
     \<lparr>r_id = js ''r1'', numero = 1, r_status = st, tempo_limite = 300,
      iniciou_em = Some 0, finalizou_em = (if st = Finalizada then Some 300000 else None)\<rparr>"

definition banco_ex :: banco where
  "banco_ex =
     \<lparr>pizzas_tbl = tbl_ex,
      equipes_tbl = [\<lparr>e_id = js ''e1'', nome = js ''A''\<rparr>, \<lparr>e_id = js ''e2'', nome = js ''B''\<rparr>],
      rodadas_tbl = [rodada_ex Finalizada]\<rparr>"

definition banco_antes_ex :: banco where
  "banco_antes_ex = banco_ex\<lparr>pizzas_tbl := [pizza_ex ''p1'' ''e1'' ''r1'' 10]\<rparr>"

definition banco_depois_ex :: banco where
  "banco_depois_ex =
     banco_ex\<lparr>pizzas_tbl := [pizza_ex ''p1'' ''e1'' ''r1'' 10, pizza_ex ''p2'' ''e2'' ''r1'' 20]\<rparr>"

definition hook_ex :: timeout_hook where
  "hook_ex = \<lparr>tempoRestante = None, estaNoTempoAdicional = False, intervalRef = None,
              tempoAdicionalProcessadoRef = {}\<rparr>"

definition fila_ex :: fila_producao where
  "fila_ex = \<lparr>rodadaAtual = Some (rodada_ex Ativa), pizzas = [], saborSelecionado = js ''s1'',
              limitePizzasRodada = 2, isActive = True, timeRemaining = 100\<rparr>"

definition montado_ex :: "avaliacao_hook \<times> cliente_realtime" where
  "montado_ex =
     efeito_inscricao 1 (\<lparr>channelRef = None, isSubscribedRef = False, temIntervalo = True\<rparr>, [])"

section \<open>The automatic rejection: helper facts\<close>

lemma reprovar_sem_pendentes:
  "filter (pendente_da_rodada rid) tbl = [] \<Longrightarrow> reprovarPizzasNaoAvaliadas resp a rid tbl = (tbl, [])"
  by (simp add: reprovarPizzasNaoAvaliadas_def db_select_def)



lemma reprovar_ok:
  assumes "\<not> selectError resp" and "\<not> updateError resp"
  shows "reprovarPizzasNaoAvaliadas resp a rid tbl =
     (db_update (pendente_da_rodada rid) (reprovacao_automatica a) tbl,
      map p_id (filter (pendente_da_rodada rid) tbl))"
proof (cases "filter (pendente_da_rodada rid) tbl = []")
  case True
  then have "\<forall>x\<in>set tbl. \<not> pendente_da_rodada rid x" by (simp add: filter_empty_conv)
  then have "db_update (pendente_da_rodada rid) (reprovacao_automatica a) tbl = tbl"
    unfolding db_update_def by (simp add: map_idI)
  with True show ?thesis by (simp add: reprovar_sem_pendentes)
next
  case False
  with assms show ?thesis by (simp add: reprovarPizzasNaoAvaliadas_def db_select_def)
qed










lemma efeito_dispara:
  assumes "r_status r = Finalizada" and "finalizou_em r = Some fim" and "fim + 60000 \<le> a"
    and "r_id r \<notin> tempoAdicionalProcessadoRef h"
  shows "efeito_timeout resp a (Some r) h t = esgotar resp a (r_id r) (h\<lparr>intervalRef := None, estaNoTempoAdicional := True\<rparr>) t"
  using assms
  by (simp add: efeito_timeout_def Let_def calcularTempoRestante_def TEMPO_ADICIONAL_SEGUNDOS_def)

lemma tick_dispara:
  assumes "intervalRef h = Some r" and "r_status r = Finalizada" and "finalizou_em r = Some fim" and "fim + 60000 \<le> a"
  shows "tick_timeout resp a h t = esgotar resp a (r_id r) h t"
  using assms
  by (simp add: tick_timeout_def Let_def calcularTempoRestante_def TEMPO_ADICIONAL_SEGUNDOS_def)


section \<open>Claims about the automatic rejection\<close>

text \<open>
  Claim C8. When the rejector runs for a round and the store answers its requests,
  every row of that round that was ready and without a result keeps its id and gets
  status evaluated, result rejected, the one fixed system reason, and the evaluator
  marker "Sistema - Timeout", which differs from the marker "Avaliador" that manual
  evaluation writes. The effect of the hook (for a finished round whose grace period is
  over and that this process has not handled) and the interval (once the grace period
  is over) both apply exactly this update.
\<close>

theorem timeout_rejection_columns:
  assumes "i < length tbl" and "pendente_da_rodada rid (tbl ! i)"
  shows "length (fst (reprovarPizzasNaoAvaliadas semErro agora rid tbl)) = length tbl \<and>
    (let q = fst (reprovarPizzasNaoAvaliadas semErro agora rid tbl) ! i in
       p_id q = p_id (tbl ! i) \<and> p_status q = Avaliada \<and> resultado q = Some Reprovada \<and>
       justificativa_reprovacao q = Some JUSTIFICATIVA_TIMEOUT \<and>
       avaliado_por q = Some (js ''Sistema - Timeout'') \<and>
       avaliado_por q \<noteq> avaliado_por (avaliacao_manual agora' res j p')) \<and>
    avaliado_por (avaliacao_manual agora' res j p') = Some (js ''Avaliador'') \<and>
    (r_status r = Finalizada \<and> finalizou_em r = Some fim \<and> fim + 60000 \<le> agora \<and>
       r_id r \<notin> tempoAdicionalProcessadoRef h \<longrightarrow>
       snd (efeito_timeout resp agora (Some r) h tbl) =
         fst (reprovarPizzasNaoAvaliadas resp agora (r_id r) tbl)) \<and>
    (intervalRef h = Some r \<and> r_status r = Finalizada \<and> finalizou_em r = Some fim \<and>
       fim + 60000 \<le> agora \<longrightarrow>
       snd (tick_timeout resp agora h tbl) =
         fst (reprovarPizzasNaoAvaliadas resp agora (r_id r) tbl))"
proof -
  have ok: "\<not> selectError semErro" "\<not> updateError semErro" by (simp_all add: semErro_def)
  have tab: "fst (reprovarPizzasNaoAvaliadas semErro agora rid tbl) =
      db_update (pendente_da_rodada rid) (reprovacao_automatica agora) tbl"
    by (simp add: reprovar_ok[OF ok])
  have row: "db_update (pendente_da_rodada rid) (reprovacao_automatica agora) tbl ! i =
      reprovacao_automatica agora (tbl ! i)"
    using assms by (simp add: db_update_def)
  have len: "length (db_update (pendente_da_rodada rid) (reprovacao_automatica agora) tbl) = length tbl"
    by (simp add: db_update_def)
  have cols: "let q = reprovacao_automatica agora (tbl ! i) in
       p_id q = p_id (tbl ! i) \<and> p_status q = Avaliada \<and> resultado q = Some Reprovada \<and>
       justificativa_reprovacao q = Some JUSTIFICATIVA_TIMEOUT \<and>
       avaliado_por q = Some (js ''Sistema - Timeout'') \<and>
       avaliado_por q \<noteq> avaliado_por (avaliacao_manual agora' res j p')"
    by (simp add: reprovacao_automatica_def avaliacao_manual_def MARCA_TIMEOUT_def MARCA_AVALIADOR_def)
  have man: "avaliado_por (avaliacao_manual agora' res j p') = Some (js ''Avaliador'')"
    by (simp add: avaliacao_manual_def MARCA_AVALIADOR_def)
  have ef: "r_status r = Finalizada \<and> finalizou_em r = Some fim \<and> fim + 60000 \<le> agora \<and>
       r_id r \<notin> tempoAdicionalProcessadoRef h \<longrightarrow>
       snd (efeito_timeout resp agora (Some r) h tbl) =
         fst (reprovarPizzasNaoAvaliadas resp agora (r_id r) tbl)"
    by (auto simp: efeito_dispara esgotar_def)
  have tk: "intervalRef h = Some r \<and> r_status r = Finalizada \<and> finalizou_em r = Some fim \<and>
       fim + 60000 \<le> agora \<longrightarrow>
       snd (tick_timeout resp agora h tbl) =
         fst (reprovarPizzasNaoAvaliadas resp agora (r_id r) tbl)"
    by (auto simp: tick_dispara esgotar_def)
  show ?thesis
    unfolding tab row using len cols man ef tk by blast
qed

theorem timeout_rejection_columns_witness:
  "avaliado_por (fst (reprovarPizzasNaoAvaliadas semErro 400000 (js ''r1'') tbl_ex) ! 1)
     = Some (js ''Sistema - Timeout'') \<and>
   resultado (fst (reprovarPizzasNaoAvaliadas semErro 400000 (js ''r1'') tbl_ex) ! 1)
     = Some Reprovada \<and>
   snd (efeito_timeout semErro 400000 (Some (rodada_ex Finalizada)) hook_ex tbl_ex)
     = fst (reprovarPizzasNaoAvaliadas semErro 400000 (js ''r1'') tbl_ex)"
proof -
  have h1: "(1::nat) < length tbl_ex" by (simp add: tbl_ex_def)
  have h2: "pendente_da_rodada (js ''r1'') (tbl_ex ! 1)"
    by (simp add: tbl_ex_def pizza_ex_def pendente_da_rodada_def)
  have h3: "r_status (rodada_ex Finalizada) = Finalizada \<and>
      finalizou_em (rodada_ex Finalizada) = Some 300000 \<and> (300000::int) + 60000 \<le> 400000 \<and>
      r_id (rodada_ex Finalizada) \<notin> tempoAdicionalProcessadoRef hook_ex"
    by (simp add: rodada_ex_def hook_ex_def)
  have h4: "r_id (rodada_ex Finalizada) = js ''r1''" by (simp add: rodada_ex_def)
  show ?thesis
    using timeout_rejection_columns[OF h1 h2, of 400000 0 Aprovada None pizza_aprovada_ex
        "rodada_ex Finalizada" 300000 hook_ex semErro] h3 h4
    by (simp add: Let_def)
qed



section \<open>The clock reconciler\<close>

lemma ceil_div_1000_eq: "ceil_div_1000 ms = \<lceil>(of_int ms :: real) / 1000\<rceil>"
proof -
  have "\<lceil>(of_int ms :: real) / of_int 1000\<rceil> = - ((- ms) div 1000)"
    by (rule ceiling_divide_eq_div)
  then show ?thesis by (simp add: ceil_div_1000_def)
qed

lemma ceil_div_1000_max: "ceil_div_1000 (max 0 ms) = max 0 (ceil_div_1000 ms)"
  unfolding ceil_div_1000_def max_def by auto

lemma ceil_div_1000_pos: "0 < ms \<Longrightarrow> 0 < ceil_div_1000 ms"
  unfolding ceil_div_1000_def by linarith

lemma spec_remaining_code:
  "spec_remaining anchor limit now = max 0 (ceil_div_1000 (anchor + limit * 1000 - now))"
  by (simp only: spec_remaining_def ceil_div_1000_eq)

text \<open>
  Claim C4. For every anchor timestamp, time limit and current time, the remaining
  seconds the team screen's \<open>updateTimer\<close> computes equal the ceiling of
  (anchor + limit * 1000 - now) / 1000 floored at zero, and are never negative; so does
  \<open>calcularTempoRestante\<close> for a finished round, with the end of the round as anchor
  and the grace period as limit. Both depend on their arguments and the clock alone:
  \<open>calcularTempoRestante\<close> only returns the number, \<open>updateTimer\<close> hands it to the
  screen's display and returns whether time is left; neither takes or returns the
  store, so reaching zero changes no round and no item.
\<close>

theorem clock_reconciler:
  "fst (updateTimer anchor (limit * 1000) now) = spec_remaining anchor limit now \<and>
   0 \<le> fst (updateTimer anchor (limit * 1000) now) \<and>
   0 \<le> spec_remaining anchor limit now \<and>
   (r_status r = Ativa \<and> iniciou_em r = Some anchor \<longrightarrow>
      timer_equipe (Some r) now t0 = spec_remaining anchor (tempo_limite r) now) \<and>
   (r_status r' = Finalizada \<and> finalizou_em r' = Some anchor \<longrightarrow>
      calcularTempoRestante (Some r') now = Some (spec_remaining anchor TEMPO_ADICIONAL_SEGUNDOS now))"
proof -
  have U: "\<And>l. fst (updateTimer anchor (l * 1000) now) = spec_remaining anchor l now"
  proof -
    fix l
    have "fst (updateTimer anchor (l * 1000) now) = ceil_div_1000 (max 0 (l * 1000 - (now - anchor)))"
      by (simp add: updateTimer_def Let_def)
    also have "\<dots> = max 0 (ceil_div_1000 (l * 1000 - (now - anchor)))"
      by (rule ceil_div_1000_max)
    also have "\<dots> = max 0 (ceil_div_1000 (anchor + l * 1000 - now))"
      by (simp add: algebra_simps)
    finally show "fst (updateTimer anchor (l * 1000) now) = spec_remaining anchor l now"
      by (simp only: spec_remaining_code)
  qed
  have N: "0 \<le> spec_remaining anchor limit now" by (simp add: spec_remaining_code)
  have T: "r_status r = Ativa \<and> iniciou_em r = Some anchor \<longrightarrow>
      timer_equipe (Some r) now t0 = spec_remaining anchor (tempo_limite r) now"
    by (simp add: timer_equipe_def U)
  have C: "r_status r' = Finalizada \<and> finalizou_em r' = Some anchor \<longrightarrow>
      calcularTempoRestante (Some r') now = Some (spec_remaining anchor TEMPO_ADICIONAL_SEGUNDOS now)"
  proof (intro impI)
    assume H: "r_status r' = Finalizada \<and> finalizou_em r' = Some anchor"
    show "calcularTempoRestante (Some r') now = Some (spec_remaining anchor TEMPO_ADICIONAL_SEGUNDOS now)"
    proof (cases "anchor + TEMPO_ADICIONAL_SEGUNDOS * 1000 - now \<le> 0")
      case True
      then have "ceil_div_1000 (anchor + TEMPO_ADICIONAL_SEGUNDOS * 1000 - now) \<le> 0"
        unfolding ceil_div_1000_def by linarith
      then have "spec_remaining anchor TEMPO_ADICIONAL_SEGUNDOS now = 0"
        by (simp add: spec_remaining_code)
      with H True show ?thesis by (simp add: calcularTempoRestante_def Let_def)
    next
      case False
      then have "0 < ceil_div_1000 (anchor + TEMPO_ADICIONAL_SEGUNDOS * 1000 - now)"
        by (intro ceil_div_1000_pos) simp
      then have "spec_remaining anchor TEMPO_ADICIONAL_SEGUNDOS now =
          ceil_div_1000 (anchor + TEMPO_ADICIONAL_SEGUNDOS * 1000 - now)"
        by (simp add: spec_remaining_code)
      with H False show ?thesis by (simp add: calcularTempoRestante_def Let_def)
    qed
  qed
  from U[of limit] N T C show ?thesis by simp
qed

theorem clock_reconciler_witness:
  "fst (updateTimer 0 (300 * 1000) 290001) = 10 \<and>
   timer_equipe (Some (rodada_ex Ativa)) 290001 0 = spec_remaining 0 300 290001 \<and>
   calcularTempoRestante (Some (rodada_ex Finalizada)) 400000 = Some 0 \<and>
   spec_remaining 300000 60 400000 = 0"
proof -
  have h1: "r_status (rodada_ex Ativa) = Ativa \<and> iniciou_em (rodada_ex Ativa) = Some 0"
    by (simp add: rodada_ex_def)
  have h2: "r_status (rodada_ex Finalizada) = Finalizada \<and>
      finalizou_em (rodada_ex Finalizada) = Some 300000"
    by (simp add: rodada_ex_def)
  have t: "tempo_limite (rodada_ex Ativa) = 300" by (simp add: rodada_ex_def)
  have v: "fst (updateTimer 0 (300 * 1000) 290001) = 10"
    by (simp add: updateTimer_def Let_def ceil_div_1000_def)
  have c: "calcularTempoRestante (Some (rodada_ex Finalizada)) 400000 = Some 0"
    by (simp add: calcularTempoRestante_def rodada_ex_def TEMPO_ADICIONAL_SEGUNDOS_def)
  from clock_reconciler[of 0 300 290001 "rodada_ex Ativa" 0 "rodada_ex Finalizada"]
    clock_reconciler[of 300000 60 400000 "rodada_ex Ativa" 0 "rodada_ex Finalizada"]
    h1 h2 t v c
  show ?thesis by (simp add: TEMPO_ADICIONAL_SEGUNDOS_def)
qed

section \<open>Manual evaluation and extension of the round\<close>

text \<open>
  Against claim C2: an item that is already approved is evaluated again as rejected.
  The call does not fail, and the item's result is overwritten.
\<close>

theorem evaluate_already_evaluated_counterexample:
  "resultado pizza_aprovada_ex = Some Aprovada \<and>
   \<not> isl (avaliarPizza False 500 (js ''p3'') Reprovada (Some (js ''crua'')) [pizza_aprovada_ex] []) \<and>
   map resultado (fst (projr (avaliarPizza False 500 (js ''p3'') Reprovada (Some (js ''crua''))
      [pizza_aprovada_ex] []))) = [Some Reprovada] \<and>
   fst (projr (avaliarPizza False 500 (js ''p3'') Reprovada (Some (js ''crua''))
      [pizza_aprovada_ex] [])) \<noteq> [pizza_aprovada_ex]"
  by (simp add: avaliarPizza_def db_update_def avaliacao_manual_def pizza_aprovada_ex_def
      pizza_ex_def)

text \<open>
  Claim C2, as amended. \<open>avaliarPizza\<close> does not look at the item's current result.
  Whenever the store accepts the write, the call succeeds and every row with the given
  id gets status evaluated, the given verdict as result and the marker "Avaliador",
  whether or not it already had a result; the reason is stored for a rejection that
  gives one and cleared for an approval; every other row is unchanged. The only
  failure is the store's own error.
\<close>

theorem evaluate_overwrites:
  assumes "i < length tbl"
  shows "\<not> isl (avaliarPizza False agora pizzaId res j tbl loc) \<and>
    avaliarPizza True agora pizzaId res j tbl loc = Inl ErroBanco \<and>
    length (fst (projr (avaliarPizza False agora pizzaId res j tbl loc))) = length tbl \<and>
    (let q = fst (projr (avaliarPizza False agora pizzaId res j tbl loc)) ! i in
       (p_id (tbl ! i) = pizzaId \<longrightarrow>
          p_id q = pizzaId \<and> p_status q = Avaliada \<and> resultado q = Some res \<and>
          avaliado_por q = Some (js ''Avaliador'') \<and>
          justificativa_reprovacao q =
            (if res = Reprovada
             then (case j of None \<Rightarrow> justificativa_reprovacao (tbl ! i) | Some t \<Rightarrow> Some t)
             else None)) \<and>
       (p_id (tbl ! i) \<noteq> pizzaId \<longrightarrow> q = tbl ! i))"
  using assms
  by (simp add: avaliarPizza_def db_update_def avaliacao_manual_def MARCA_AVALIADOR_def Let_def)

theorem evaluate_overwrites_witness:
  "resultado (tbl_ex ! 2) = Some Aprovada \<and>
   resultado (fst (projr (avaliarPizza False 500 (js ''p3'') Reprovada None tbl_ex [])) ! 2)
     = Some Reprovada"
proof -
  have h: "(2::nat) < length tbl_ex" by (simp add: tbl_ex_def)
  have i: "p_id (tbl_ex ! 2) = js ''p3''" "resultado (tbl_ex ! 2) = Some Aprovada"
    by (simp_all add: tbl_ex_def pizza_aprovada_ex_def pizza_ex_def)
  from evaluate_overwrites[OF h, of 500 "js ''p3''" Reprovada None "[]"] i
  show ?thesis by (simp add: Let_def)
qed

text \<open>
  Against claim C3: an active round with a limit of 300 seconds, 290 seconds after its
  start, is shortened by five minutes. The new limit is 0, below the time consumed.
\<close>

theorem extend_floor_counterexample:
  "r_status (rodada_ex Ativa) = Ativa \<and>
   tempo_limite (rodada_ex Ativa) = 300 \<and>
   (290000 - the (iniciou_em (rodada_ex Ativa))) div 1000 = 290 \<and>
   tempo_limite (hd (adicionarMinutos False (- 5) (Some (rodada_ex Ativa)) [rodada_ex Ativa])) = 0 \<and>
   tempo_limite (hd (adicionarMinutos False (- 5) (Some (rodada_ex Ativa)) [rodada_ex Ativa]))
     < (290000 - the (iniciou_em (rodada_ex Ativa))) div 1000"
  by (simp add: adicionarMinutos_def db_update_def rodada_ex_def Let_def)

text \<open>
  Claim C3, as amended. For every round the screen holds and every delta, positive or
  negative, \<open>adicionarMinutos\<close> sets the limit of the round's row to the screen's
  limit plus delta * 60 seconds, with no floor at the time consumed; the row's other
  columns and every other row are unchanged.
\<close>

theorem extend_adds_delta:
  assumes "i < length tbl"
  shows "length (adicionarMinutos False minutos (Some r) tbl) = length tbl \<and>
    (let q = adicionarMinutos False minutos (Some r) tbl ! i in
       (r_id (tbl ! i) = r_id r \<longrightarrow>
          tempo_limite q = tempo_limite r + minutos * 60 \<and> r_id q = r_id r \<and>
          r_status q = r_status (tbl ! i) \<and> iniciou_em q = iniciou_em (tbl ! i)) \<and>
       (r_id (tbl ! i) \<noteq> r_id r \<longrightarrow> q = tbl ! i))"
  using assms by (simp add: adicionarMinutos_def db_update_def Let_def)

theorem extend_adds_delta_witness:
  "tempo_limite (adicionarMinutos False 5 (Some (rodada_ex Ativa)) [rodada_ex Ativa] ! 0) = 600 \<and>
   tempo_limite (adicionarMinutos False (- 1) (Some (rodada_ex Ativa)) [rodada_ex Ativa] ! 0) = 240"
proof -
  have h: "(0::nat) < length [rodada_ex Ativa]" by simp
  from extend_adds_delta[OF h, of 5 "rodada_ex Ativa"] extend_adds_delta[OF h, of "- 1" "rodada_ex Ativa"]
  show ?thesis by (simp add: Let_def rodada_ex_def)
qed

section \<open>Submission: quota and round gate\<close>

lemma podeEnviarPizza_render:
  "podeEnviarPizza (st\<lparr>pizzas := ps, saborSelecionado := sb\<rparr>) = podeEnviarPizza st"
  by (auto simp: podeEnviarPizza_def split: option.split)

lemma enviar_varias_Cons:
  "fst (enviar_varias e st ((nid, a, sb) # reqs) tbl) =
     (let st1 = st\<lparr>pizzas := usePizzas (Some e) (map_option r_id (rodadaAtual st)) tbl,
                   saborSelecionado := sb\<rparr>
      in fst (handleEnviarPizza False nid a e st1 tbl) #
         fst (enviar_varias e st reqs (snd (handleEnviarPizza False nid a e st1 tbl))))"
  by (simp add: Let_def split: prod.split)

lemma usePizzas_marcar:
  "length (usePizzas (Some e) (Some r) (marcarPizzaPronta nid a e r sb tbl)) =
     Suc (length (usePizzas (Some e) (Some r) tbl))"
  by (simp add: usePizzas_def marcarPizzaPronta_def)

lemma handleEnviarPizza_aceita:
  assumes "rodadaAtual st = Some r" and "podeEnviarPizza st" and "saborSelecionado st \<noteq> []"
  shows "handleEnviarPizza False nid a e st tbl =
     (if verificarLimitePizzas st then (Recusada LimiteAtingido, tbl)
      else (Enviada, marcarPizzaPronta nid a e (r_id r) (saborSelecionado st) tbl))"
  using assms by (simp add: handleEnviarPizza_def)

lemma enviar_varias_nth:
  assumes "rodadaAtual st = Some r" and "podeEnviarPizza st"
  shows "\<forall>q\<in>set reqs. snd (snd q) \<noteq> [] \<Longrightarrow> i < length reqs \<Longrightarrow>
    fst (enviar_varias e st reqs tbl) ! i =
      (if int (length (usePizzas (Some e) (Some (r_id r)) tbl)) + int i < limitePizzasRodada st
       then Enviada else Recusada LimiteAtingido)"
proof (induction reqs arbitrary: tbl i)
  case Nil
  then show ?case by simp
next
  case (Cons q reqs)
  obtain nid a sb where q: "q = (nid, a, sb)" by (cases q)
  have sb: "sb \<noteq> []" using Cons.prems(1) q by simp
  define st1 where "st1 = st\<lparr>pizzas := usePizzas (Some e) (map_option r_id (rodadaAtual st)) tbl,
      saborSelecionado := sb\<rparr>"
  have r1: "rodadaAtual st1 = Some r" and p1: "podeEnviarPizza st1" and s1: "saborSelecionado st1 \<noteq> []"
    and l1: "limitePizzasRodada st1 = limitePizzasRodada st"
    and z1: "pizzas st1 = usePizzas (Some e) (Some (r_id r)) tbl" and ss: "saborSelecionado st1 = sb"
    using assms sb by (simp_all add: st1_def podeEnviarPizza_render)
  let ?n = "int (length (usePizzas (Some e) (Some (r_id r)) tbl))"
  have lim: "verificarLimitePizzas st1 \<longleftrightarrow> \<not> ?n < limitePizzasRodada st"
    by (auto simp: verificarLimitePizzas_def z1 l1 Let_def)
  have h: "handleEnviarPizza False nid a e st1 tbl =
     (if ?n < limitePizzasRodada st
      then (Enviada, marcarPizzaPronta nid a e (r_id r) sb tbl)
      else (Recusada LimiteAtingido, tbl))"
    using handleEnviarPizza_aceita[OF r1 p1 s1, of nid a e tbl] lim ss by simp
  have rest: "\<forall>q\<in>set reqs. snd (snd q) \<noteq> []" using Cons.prems(1) by simp
  show ?case
  proof (cases i)
    case 0
    then show ?thesis using h
      by (simp add: q enviar_varias_Cons st1_def[symmetric] Let_def del: enviar_varias.simps)
  next
    case (Suc k)
    then have k: "k < length reqs" using Cons.prems(2) by simp
    show ?thesis
    proof (cases "?n < limitePizzasRodada st")
      case True
      have "fst (enviar_varias e st reqs (marcarPizzaPronta nid a e (r_id r) sb tbl)) ! k =
        (if int (length (usePizzas (Some e) (Some (r_id r)) (marcarPizzaPronta nid a e (r_id r) sb tbl))) + int k
             < limitePizzasRodada st then Enviada else Recusada LimiteAtingido)"
        by (rule Cons.IH[OF rest k])
      then show ?thesis using True h Suc
        by (simp add: q enviar_varias_Cons st1_def[symmetric] Let_def usePizzas_marcar
            add.commute add.left_commute del: enviar_varias.simps)
    next
      case False
      have "fst (enviar_varias e st reqs tbl) ! k =
        (if ?n + int k < limitePizzasRodada st then Enviada else Recusada LimiteAtingido)"
        by (rule Cons.IH[OF rest k])
      then show ?thesis using False h Suc
        by (simp add: q enviar_varias_Cons st1_def[symmetric] Let_def del: enviar_varias.simps)
    qed
  qed
qed

lemma usePizzas_db_update:
  assumes "\<And>p. equipe_id (f p) = equipe_id p" and "\<And>p. rodada_id (f p) = rodada_id p"
  shows "length (usePizzas eo ro (db_update P f tbl)) = length (usePizzas eo ro tbl)"
proof -
  have "filter (\<lambda>p. (case eo of None \<Rightarrow> True | Some e \<Rightarrow> equipe_id p = e) \<and>
                   (case ro of None \<Rightarrow> True | Some r \<Rightarrow> rodada_id p = r))
          (map (\<lambda>x. if P x then f x else x) tbl) =
        map (\<lambda>x. if P x then f x else x)
          (filter (\<lambda>p. (case eo of None \<Rightarrow> True | Some e \<Rightarrow> equipe_id p = e) \<and>
                   (case ro of None \<Rightarrow> True | Some r \<Rightarrow> rodada_id p = r)) tbl)"
    unfolding filter_map
    by (rule arg_cong[where f = "map _"], rule filter_cong)
      (auto simp: assms split: option.split)
  then show ?thesis by (simp add: usePizzas_def db_update_def)
qed

text \<open>
  Claim C5. A team submits a run of items, each with a flavour chosen, in a round that
  is accepting, with per-round limit L and n items of that team already in the round.
  Submission number i (from 0) is sent exactly when n + i < L, and is otherwise refused
  with the limit message: from n = 0, exactly L submissions succeed and the (L+1)-th
  fails. The count is over every item the team created in the round, whatever its
  status: evaluating items, by hand or by the timeout, does not change it. For one
  attempt, the component refuses with the limit message exactly when its list of the
  team's items has reached the limit.
\<close>

theorem quota_enforced:
  assumes "rodadaAtual st = Some r" and "podeEnviarPizza st"
    and "\<forall>q\<in>set reqs. snd (snd q) \<noteq> []" and "i < length reqs"
  shows "fst (enviar_varias e st reqs tbl) ! i =
      (if int (length (usePizzas (Some e) (Some (r_id r)) tbl)) + int i < limitePizzasRodada st
       then Enviada else Recusada LimiteAtingido) \<and>
    length (usePizzas (Some e) (Some (r_id r)) (db_update P (avaliacao_manual a res j) tbl)) =
      length (usePizzas (Some e) (Some (r_id r)) tbl) \<and>
    length (usePizzas (Some e) (Some (r_id r)) (db_update P (reprovacao_automatica a) tbl)) =
      length (usePizzas (Some e) (Some (r_id r)) tbl) \<and>
    (saborSelecionado st \<noteq> [] \<longrightarrow>
       fst (handleEnviarPizza False nid a' e st tbl) =
         (if limitePizzasRodada st \<le> int (length (pizzas st)) then Recusada LimiteAtingido
          else Enviada))"
proof -
  have D: "saborSelecionado st \<noteq> [] \<longrightarrow>
       fst (handleEnviarPizza False nid a' e st tbl) =
         (if limitePizzasRodada st \<le> int (length (pizzas st)) then Recusada LimiteAtingido
          else Enviada)"
    using assms(1,2) by (simp add: handleEnviarPizza_aceita verificarLimitePizzas_def Let_def)
  have A: "fst (enviar_varias e st reqs tbl) ! i =
      (if int (length (usePizzas (Some e) (Some (r_id r)) tbl)) + int i < limitePizzasRodada st
       then Enviada else Recusada LimiteAtingido)"
    using assms by (intro enviar_varias_nth)
  have B: "length (usePizzas (Some e) (Some (r_id r)) (db_update P (avaliacao_manual a res j) tbl)) =
      length (usePizzas (Some e) (Some (r_id r)) tbl)"
    by (rule usePizzas_db_update) (simp_all add: avaliacao_manual_def)
  have C: "length (usePizzas (Some e) (Some (r_id r)) (db_update P (reprovacao_automatica a) tbl)) =
      length (usePizzas (Some e) (Some (r_id r)) tbl)"
    by (rule usePizzas_db_update) (simp_all add: reprovacao_automatica_def)
  from A B C D show ?thesis by blast
qed

theorem quota_enforced_witness:
  "fst (enviar_varias (js ''e1'') fila_ex
      [(js ''n1'', 1, js ''s1''), (js ''n2'', 2, js ''s2''), (js ''n3'', 3, js ''s1'')] []) ! 1 = Enviada \<and>
   fst (enviar_varias (js ''e1'') fila_ex
      [(js ''n1'', 1, js ''s1''), (js ''n2'', 2, js ''s2''), (js ''n3'', 3, js ''s1'')] []) ! 2
     = Recusada LimiteAtingido"
proof -
  let ?reqs = "[(js ''n1'', 1::int, js ''s1''), (js ''n2'', 2, js ''s2''), (js ''n3'', 3, js ''s1'')]"
  have h1: "rodadaAtual fila_ex = Some (rodada_ex Ativa)" by (simp add: fila_ex_def)
  have h2: "podeEnviarPizza fila_ex" by (simp add: podeEnviarPizza_def fila_ex_def rodada_ex_def)
  have h3: "\<forall>q\<in>set ?reqs. snd (snd q) \<noteq> []" by simp
  have i1: "(1::nat) < length ?reqs" and i2: "(2::nat) < length ?reqs" by simp_all
  have n: "usePizzas (Some (js ''e1'')) (Some (r_id (rodada_ex Ativa))) [] = []"
    by (simp add: usePizzas_def)
  have l: "limitePizzasRodada fila_ex = 2" by (simp add: fila_ex_def)
  from quota_enforced[OF h1 h2 h3 i1, of "js ''e1''" "[]"] quota_enforced[OF h1 h2 h3 i2, of "js ''e1''" "[]"] n l
  show ?thesis by simp
qed

text \<open>
  Claim C6. The component accepts a submission exactly when there is a round with
  status active, the timer is active and the timer's remaining time is positive;
  whenever it does not, no attempt is sent and the table is left as it is. A submit
  attempt with a round and a flavour is then refused with the time-is-up message:
  whenever the round's status is not active, the timer is not active, or the
  remaining time is at most zero. Otherwise (the limit not reached and the insert
  going through) one item is created, of that team, round and flavour, directly in
  ready status and without a result.
\<close>

theorem submit_gate:
  "(podeEnviarPizza st \<longleftrightarrow>
      (\<exists>r. rodadaAtual st = Some r \<and> r_status r = Ativa) \<and> isActive st \<and> 0 < timeRemaining st) \<and>
   (\<not> podeEnviarPizza st \<longrightarrow>
      fst (handleEnviarPizza falha nid a e st tbl) \<noteq> Enviada \<and>
      snd (handleEnviarPizza falha nid a e st tbl) = tbl) \<and>
   (rodadaAtual st = Some r \<and> saborSelecionado st \<noteq> [] \<longrightarrow>
      (r_status r \<noteq> Ativa \<or> \<not> isActive st \<or> timeRemaining st \<le> 0 \<longrightarrow>
         handleEnviarPizza falha nid a e st tbl = (Recusada TempoEsgotado, tbl)) \<and>
      (r_status r = Ativa \<and> isActive st \<and> 0 < timeRemaining st \<and> \<not> verificarLimitePizzas st \<and>
         \<not> falha \<longrightarrow>
         (\<exists>p. handleEnviarPizza falha nid a e st tbl = (Enviada, tbl @ [p]) \<and>
              p_id p = nid \<and> p_status p = Pronta \<and> resultado p = None \<and> equipe_id p = e \<and>
              rodada_id p = r_id r \<and> sabor_id p = Some (saborSelecionado st))))"
proof -
  have P: "podeEnviarPizza st \<longleftrightarrow>
      (\<exists>r. rodadaAtual st = Some r \<and> r_status r = Ativa) \<and> isActive st \<and> 0 < timeRemaining st"
    by (auto simp: podeEnviarPizza_def split: option.split)
  have N: "\<not> podeEnviarPizza st \<longrightarrow>
      fst (handleEnviarPizza falha nid a e st tbl) \<noteq> Enviada \<and>
      snd (handleEnviarPizza falha nid a e st tbl) = tbl"
    by (simp add: handleEnviarPizza_def split: option.split)
  have G: "rodadaAtual st = Some r \<and> saborSelecionado st \<noteq> [] \<longrightarrow>
      (r_status r \<noteq> Ativa \<or> \<not> isActive st \<or> timeRemaining st \<le> 0 \<longrightarrow>
         handleEnviarPizza falha nid a e st tbl = (Recusada TempoEsgotado, tbl)) \<and>
      (r_status r = Ativa \<and> isActive st \<and> 0 < timeRemaining st \<and> \<not> verificarLimitePizzas st \<and>
         \<not> falha \<longrightarrow>
         (\<exists>p. handleEnviarPizza falha nid a e st tbl = (Enviada, tbl @ [p]) \<and>
              p_id p = nid \<and> p_status p = Pronta \<and> resultado p = None \<and> equipe_id p = e \<and>
              rodada_id p = r_id r \<and> sabor_id p = Some (saborSelecionado st)))"
    by (auto simp: handleEnviarPizza_def podeEnviarPizza_def marcarPizzaPronta_def)
  from P N G show ?thesis by blast
qed

theorem submit_gate_witness:
  "handleEnviarPizza False (js ''n1'') 1 (js ''e1'')
      (fila_ex\<lparr>rodadaAtual := Some (rodada_ex Pausada)\<rparr>) tbl_ex = (Recusada TempoEsgotado, tbl_ex) \<and>
   handleEnviarPizza False (js ''n1'') 1 (js ''e1'') (fila_ex\<lparr>timeRemaining := 0\<rparr>) tbl_ex
     = (Recusada TempoEsgotado, tbl_ex) \<and>
   fst (handleEnviarPizza False (js ''n1'') 1 (js ''e1'') fila_ex tbl_ex) = Enviada \<and>
   p_status (last (snd (handleEnviarPizza False (js ''n1'') 1 (js ''e1'') fila_ex tbl_ex))) = Pronta"
proof -
  have a1: "rodadaAtual (fila_ex\<lparr>rodadaAtual := Some (rodada_ex Pausada)\<rparr>) = Some (rodada_ex Pausada) \<and>
      saborSelecionado (fila_ex\<lparr>rodadaAtual := Some (rodada_ex Pausada)\<rparr>) \<noteq> []"
    and a3: "r_status (rodada_ex Pausada) \<noteq> Ativa"
    by (simp_all add: fila_ex_def rodada_ex_def)
  have b1: "rodadaAtual (fila_ex\<lparr>timeRemaining := 0\<rparr>) = Some (rodada_ex Ativa) \<and>
      saborSelecionado (fila_ex\<lparr>timeRemaining := 0\<rparr>) \<noteq> []"
    and b3: "timeRemaining (fila_ex\<lparr>timeRemaining := 0\<rparr>) \<le> 0"
    by (simp_all add: fila_ex_def)
  have c1: "rodadaAtual fila_ex = Some (rodada_ex Ativa) \<and> saborSelecionado fila_ex \<noteq> []"
    and c3: "r_status (rodada_ex Ativa) = Ativa \<and> isActive fila_ex \<and> 0 < timeRemaining fila_ex \<and>
      \<not> verificarLimitePizzas fila_ex \<and> \<not> False"
    by (simp_all add: fila_ex_def rodada_ex_def verificarLimitePizzas_def)
  from submit_gate[of "fila_ex\<lparr>rodadaAtual := Some (rodada_ex Pausada)\<rparr>" False "js ''n1''" 1
      "js ''e1''" tbl_ex "rodada_ex Pausada"] a1 a3
  have A: "handleEnviarPizza False (js ''n1'') 1 (js ''e1'')
      (fila_ex\<lparr>rodadaAtual := Some (rodada_ex Pausada)\<rparr>) tbl_ex = (Recusada TempoEsgotado, tbl_ex)"
    by blast
  from submit_gate[of "fila_ex\<lparr>timeRemaining := 0\<rparr>" False "js ''n1''" 1 "js ''e1''" tbl_ex
      "rodada_ex Ativa"] b1 b3
  have B: "handleEnviarPizza False (js ''n1'') 1 (js ''e1'') (fila_ex\<lparr>timeRemaining := 0\<rparr>) tbl_ex
     = (Recusada TempoEsgotado, tbl_ex)"
    by blast
  from submit_gate[of fila_ex False "js ''n1''" 1 "js ''e1''" tbl_ex "rodada_ex Ativa"] c1 c3
  obtain p where "handleEnviarPizza False (js ''n1'') 1 (js ''e1'') fila_ex tbl_ex = (Enviada, tbl_ex @ [p])"
    and "p_status p = Pronta"
    by blast
  then have C: "fst (handleEnviarPizza False (js ''n1'') 1 (js ''e1'') fila_ex tbl_ex) = Enviada \<and>
     p_status (last (snd (handleEnviarPizza False (js ''n1'') 1 (js ''e1'') fila_ex tbl_ex))) = Pronta"
    by simp
  from A B C show ?thesis by blast
qed

section \<open>The evaluation lists\<close>

lemma trim_Nil_iff: "trim s = [] \<longleftrightarrow> (\<forall>c\<in>set s. strWhiteSpaceChar c)"
proof
  assume "trim s = []"
  then have e: "dropWhile strWhiteSpaceChar (rev (dropWhile strWhiteSpaceChar s)) = []"
    by (simp add: trim_def)
  show "\<forall>c\<in>set s. strWhiteSpaceChar c"
  proof (rule ccontr)
    assume "\<not> (\<forall>c\<in>set s. strWhiteSpaceChar c)"
    then have ne: "dropWhile strWhiteSpaceChar s \<noteq> []" by (simp add: dropWhile_eq_Nil_conv)
    then have "\<not> strWhiteSpaceChar (hd (dropWhile strWhiteSpaceChar s))" by (rule hd_dropWhile)
    moreover have "hd (dropWhile strWhiteSpaceChar s) \<in> set (rev (dropWhile strWhiteSpaceChar s))"
      using ne by simp
    ultimately have "dropWhile strWhiteSpaceChar (rev (dropWhile strWhiteSpaceChar s)) \<noteq> []"
      by (auto simp: dropWhile_eq_Nil_conv)
    with e show False by simp
  qed
next
  assume "\<forall>c\<in>set s. strWhiteSpaceChar c"
  then have "dropWhile strWhiteSpaceChar s = []" by (simp add: dropWhile_eq_Nil_conv)
  then show "trim s = []" by (simp add: trim_def del: dropWhile_eq_Nil_conv)
qed

lemma filtra_por_equipe_iff: "filtra_por_equipe e \<longleftrightarrow> \<not> (\<forall>c\<in>set e. strWhiteSpaceChar c)"
  by (auto simp: filtra_por_equipe_def trim_Nil_iff)

text \<open>
  The fetch alone: on a store in which each pizza's team exists, a fetch that the store
  answers returns exactly the items with status ready and no result, of all teams, each
  as often as the table holds it, in ascending order of creation time.
\<close>

theorem evaluation_listing:
  assumes "\<forall>p\<in>set (pizzas_tbl b). tem_equipe b p"
  shows "(case fetchPizzasParaAvaliacao False b of
            Inl err \<Rightarrow> False
          | Inr xs \<Rightarrow>
              mset xs = mset (filter (\<lambda>p. p_status p = Pronta \<and> resultado p = None) (pizzas_tbl b)) \<and>
              sorted (map created_at xs))"
proof -
  have "filter (\<lambda>p. tem_equipe b p \<and> p_status p = Pronta \<and> resultado p = None) (pizzas_tbl b) =
      filter (\<lambda>p. p_status p = Pronta \<and> resultado p = None) (pizzas_tbl b)"
    using assms by (intro filter_cong) auto
  then show ?thesis by (simp add: fetchPizzasParaAvaliacao_def)
qed

theorem evaluation_listing_witness:
  "fetchPizzasParaAvaliacao False banco_ex =
     Inr [pizza_ex ''p1'' ''e1'' ''r1'' 10, pizza_ex ''p2'' ''e2'' ''r1'' 20]"
proof -
  have h: "\<forall>p\<in>set (pizzas_tbl banco_ex). tem_equipe banco_ex p"
    by (simp add: banco_ex_def tbl_ex_def tem_equipe_def pizza_ex_def pizza_aprovada_ex_def)
  have v: "fetchPizzasParaAvaliacao False banco_ex =
     Inr [pizza_ex ''p1'' ''e1'' ''r1'' 10, pizza_ex ''p2'' ''e2'' ''r1'' 20]"
    by (simp add: fetchPizzasParaAvaliacao_def banco_ex_def tbl_ex_def tem_equipe_def pizza_ex_def
        pizza_aprovada_ex_def)
  from evaluation_listing[OF h] v show ?thesis by simp
qed

text \<open>
  The handler of the hook's other revision keeps a list that is oldest first in that
  order, whatever the event.
\<close>

lemma handler_pizzas_refetch_sorted:
  assumes "sorted (map created_at prev)"
  shows "sorted (map created_at (handler_pizzas_refetch falha b ev prev))"
proof -
  have f: "\<And>P. sorted (map created_at (filter P prev))"
    using assms by (rule sorted_filter)
  have r: "sorted (map created_at
      (case fetchPizzasParaAvaliacao falha b of Inl err \<Rightarrow> prev | Inr dados \<Rightarrow> dados))"
    using assms by (simp add: fetchPizzasParaAvaliacao_def)
  show ?thesis
    using assms f r by (cases ev) (simp_all add: handler_pizzas_refetch_def Let_def)
qed

text \<open>
  Claim C9 fails on the code. The list the hook offers is set by the fetch, oldest
  first, and then rewritten by the handler of the change feed, which puts a newly ready
  item in front of the list. With one ready item listed (created at 10), the insert of
  a second ready item (created at 20) gives the list the order 20, 10. The fetch on the
  same store, and the handler of the hook's other revision, give 10, 20.
\<close>

theorem realtime_insert_breaks_order:
  "fetchPizzasParaAvaliacao False banco_antes_ex = Inr [pizza_ex ''p1'' ''e1'' ''r1'' 10] \<and>
   handler_pizzas banco_depois_ex (INSERT (pizza_ex ''p2'' ''e2'' ''r1'' 20))
       [pizza_ex ''p1'' ''e1'' ''r1'' 10]
     = [pizza_ex ''p2'' ''e2'' ''r1'' 20, pizza_ex ''p1'' ''e1'' ''r1'' 10] \<and>
   map created_at (handler_pizzas banco_depois_ex (INSERT (pizza_ex ''p2'' ''e2'' ''r1'' 20))
       [pizza_ex ''p1'' ''e1'' ''r1'' 10]) = [20, 10] \<and>
   \<not> sorted (map created_at (handler_pizzas banco_depois_ex (INSERT (pizza_ex ''p2'' ''e2'' ''r1'' 20))
       [pizza_ex ''p1'' ''e1'' ''r1'' 10])) \<and>
   fetchPizzasParaAvaliacao False banco_depois_ex
     = Inr [pizza_ex ''p1'' ''e1'' ''r1'' 10, pizza_ex ''p2'' ''e2'' ''r1'' 20] \<and>
   handler_pizzas_refetch False banco_depois_ex (INSERT (pizza_ex ''p2'' ''e2'' ''r1'' 20))
       [pizza_ex ''p1'' ''e1'' ''r1'' 10]
     = [pizza_ex ''p1'' ''e1'' ''r1'' 10, pizza_ex ''p2'' ''e2'' ''r1'' 20]"
  by (simp add: fetchPizzasParaAvaliacao_def handler_pizzas_def handler_pizzas_refetch_def
      buscar_pizza_completa_def banco_antes_ex_def banco_depois_ex_def banco_ex_def tem_equipe_def
      pizza_ex_def Let_def)

text \<open>
  Claim C10. In the team-scoped hook, on a store in which each pizza's team and round
  exist: when the team identifier is empty or consists of whitespace only, the channel
  configuration carries no row filter and the fetch returns the ready, unevaluated
  items of every team; otherwise the configuration carries the filter
  "equipe_id=eq." followed by the identifier, and the fetch returns the ready,
  unevaluated items of that team only. Both lists are in ascending order of creation.
\<close>

theorem team_scoped_listing:
  assumes "\<forall>p\<in>set (pizzas_tbl b). tem_equipe b p \<and> tem_rodada b p"
  shows "((\<forall>c\<in>set e. strWhiteSpaceChar c) \<longrightarrow>
       cc_filter (channelConfig e) = None \<and>
       (case fetchPizzasParaAvaliacao_equipe False e b of
          Inl err \<Rightarrow> False
        | Inr xs \<Rightarrow>
            mset xs = mset (filter (\<lambda>p. p_status p = Pronta \<and> resultado p = None) (pizzas_tbl b)) \<and>
            sorted (map created_at xs))) \<and>
    (\<not> (\<forall>c\<in>set e. strWhiteSpaceChar c) \<longrightarrow>
       cc_filter (channelConfig e) = Some (js ''equipe_id=eq.'' @ e) \<and>
       (case fetchPizzasParaAvaliacao_equipe False e b of
          Inl err \<Rightarrow> False
        | Inr xs \<Rightarrow>
            mset xs = mset (filter (\<lambda>p. p_status p = Pronta \<and> resultado p = None \<and> equipe_id p = e)
                              (pizzas_tbl b)) \<and>
            sorted (map created_at xs)))"
proof (cases "\<forall>c\<in>set e. strWhiteSpaceChar c")
  case True
  then have nf: "\<not> filtra_por_equipe e" by (simp add: filtra_por_equipe_iff)
  have "filter (\<lambda>p. tem_equipe b p \<and> tem_rodada b p \<and> p_status p = Pronta \<and> resultado p = None \<and>
          (if filtra_por_equipe e then equipe_id p = e else True)) (pizzas_tbl b) =
      filter (\<lambda>p. p_status p = Pronta \<and> resultado p = None) (pizzas_tbl b)"
    using assms nf by (intro filter_cong) auto
  then show ?thesis using True nf
    by (simp add: fetchPizzasParaAvaliacao_equipe_def channelConfig_def)
next
  case False
  then have f: "filtra_por_equipe e" by (simp add: filtra_por_equipe_iff)
  have "filter (\<lambda>p. tem_equipe b p \<and> tem_rodada b p \<and> p_status p = Pronta \<and> resultado p = None \<and>
          (if filtra_por_equipe e then equipe_id p = e else True)) (pizzas_tbl b) =
      filter (\<lambda>p. p_status p = Pronta \<and> resultado p = None \<and> equipe_id p = e) (pizzas_tbl b)"
    using assms f by (intro filter_cong) auto
  then show ?thesis using False f
    by (simp add: fetchPizzasParaAvaliacao_equipe_def channelConfig_def)
qed

theorem team_scoped_listing_witness:
  "cc_filter (channelConfig [0x20, 0x09]) = None \<and>
   fetchPizzasParaAvaliacao_equipe False [0x20, 0x09] banco_ex =
     Inr [pizza_ex ''p1'' ''e1'' ''r1'' 10, pizza_ex ''p2'' ''e2'' ''r1'' 20] \<and>
   cc_filter (channelConfig (js ''e2'')) = Some (js ''equipe_id=eq.e2'') \<and>
   fetchPizzasParaAvaliacao_equipe False (js ''e2'') banco_ex = Inr [pizza_ex ''p2'' ''e2'' ''r1'' 20]"
proof -
  have h: "\<forall>p\<in>set (pizzas_tbl banco_ex). tem_equipe banco_ex p \<and> tem_rodada banco_ex p"
    by (simp add: banco_ex_def tbl_ex_def tem_equipe_def tem_rodada_def pizza_ex_def
        pizza_aprovada_ex_def rodada_ex_def)
  have w: "\<forall>c\<in>set [0x20, 0x09::nat]. strWhiteSpaceChar c" by (simp add: strWhiteSpaceChar_def)
  have nw: "\<not> (\<forall>c\<in>set (js ''e2''). strWhiteSpaceChar c)" by (simp add: strWhiteSpaceChar_def)
  have t1: "\<not> filtra_por_equipe [0x20, 0x09]" using w filtra_por_equipe_iff by blast
  have t2: "filtra_por_equipe (js ''e2'')" using nw filtra_por_equipe_iff by blast
  have v1: "fetchPizzasParaAvaliacao_equipe False [0x20, 0x09] banco_ex =
     Inr [pizza_ex ''p1'' ''e1'' ''r1'' 10, pizza_ex ''p2'' ''e2'' ''r1'' 20]"
    using t1
    by (simp add: fetchPizzasParaAvaliacao_equipe_def banco_ex_def tbl_ex_def
        tem_equipe_def tem_rodada_def pizza_ex_def pizza_aprovada_ex_def rodada_ex_def)
  have v2: "fetchPizzasParaAvaliacao_equipe False (js ''e2'') banco_ex = Inr [pizza_ex ''p2'' ''e2'' ''r1'' 20]"
    using t2
    by (simp add: fetchPizzasParaAvaliacao_equipe_def banco_ex_def tbl_ex_def
        tem_equipe_def tem_rodada_def pizza_ex_def pizza_aprovada_ex_def rodada_ex_def)
  from team_scoped_listing[OF h, of "[0x20, 0x09]"] team_scoped_listing[OF h, of "js ''e2''"] w nw v1 v2
  show ?thesis by simp
qed

section \<open>Teardown of the subscription\<close>

text \<open>
  Claim C7 fails on the code. The hook is mounted and unmounted before the answer to
  the join arrives: \<open>cleanupChannel\<close> requires \<open>isSubscribedRef\<close>, so the channel
  stays with the client (the interval is cleared). When the join is then confirmed, a
  change of the table runs the handler of the unmounted hook. Had the confirmation
  arrived before the unmount, the channel would have been removed.
\<close>

theorem teardown_before_subscribed_leaves_channel:
  "snd montado_ex = [(1, Entrando)] \<and>
   snd (desmontar montado_ex) = [(1, Entrando)] \<and>
   channelRef (fst (desmontar montado_ex)) = Some 1 \<and>
   temIntervalo (fst (desmontar montado_ex)) = False \<and>
   entregar (snd (receber_status 1 SUBSCRIBED (desmontar montado_ex))) = [1] \<and>
   entregar (snd (desmontar (receber_status 1 SUBSCRIBED montado_ex))) = []"
  by (simp add: montado_ex_def efeito_inscricao_def cleanupChannel_def desmontar_def
      receber_status_def muda_fase_def removeChannel_def entregar_def Let_def)

end
